theory Spec2Isabelle
  imports Main "HOL-Library.Word"
begin

section \<open>Strings, bytes and character classes\<close>

text \<open>
  A Python \<open>str\<close> is a sequence of Unicode code points, so it is modelled as a list of
  natural numbers; \<open>bytes\<close> are modelled as \<open>string\<close> (a list of 8-bit characters).
  String literals of the source are written \<open>U ''...''\<close>.
\<close>

type_synonym ustr = "nat list"

abbreviation U :: "string \<Rightarrow> ustr" where
  "U s \<equiv> map of_char s"

text \<open>
  The regular-expression classes \<open>\w\<close> and \<open>\s\<close> and \<open>str.strip\<close> consult the Unicode
  database of the Python runtime. On ASCII the classes are fixed (\<open>[0-9A-Za-z_]\<close> and the
  characters 9-13, 28-32); above ASCII the database is a parameter of the model.
\<close>

record unicode_db =
  uni_alnum :: "nat \<Rightarrow> bool"
  uni_space :: "nat \<Rightarrow> bool"

definition ascii_alnum :: "nat \<Rightarrow> bool" where
  "ascii_alnum c = ((48 \<le> c \<and> c \<le> 57) \<or> (65 \<le> c \<and> c \<le> 90) \<or> (97 \<le> c \<and> c \<le> 122))"

definition ascii_space :: "nat \<Rightarrow> bool" where
  "ascii_space c = ((9 \<le> c \<and> c \<le> 13) \<or> (28 \<le> c \<and> c \<le> 32))"

definition is_word :: "unicode_db \<Rightarrow> nat \<Rightarrow> bool" where
  "is_word db c = (if c < 128 then ascii_alnum c \<or> c = 95 else uni_alnum db c)"

definition is_space :: "unicode_db \<Rightarrow> nat \<Rightarrow> bool" where
  "is_space db c = (if c < 128 then ascii_space c else uni_space db c)"

subsection \<open>sanitize_filename\<close>

text \<open>
  \<^verbatim>\<open>filename = re.sub(r'[^\w\s-]', '_', filename)\<close>: every character that is neither a word
  character, nor whitespace, nor the hyphen (45) becomes an underscore (95).
\<close>

definition sub_invalid :: "unicode_db \<Rightarrow> ustr \<Rightarrow> ustr" where
  "sub_invalid db s = map (\<lambda>c. if is_word db c \<or> is_space db c \<or> c = 45 then c else 95) s"

text \<open>
  \<^verbatim>\<open>filename = re.sub(r'\s+', '_', filename)\<close>: every maximal run of whitespace becomes one
  underscore.
\<close>

function sub_spaces :: "unicode_db \<Rightarrow> ustr \<Rightarrow> ustr" where
  "sub_spaces db [] = []"
| "sub_spaces db (c # cs) =
     (if is_space db c then 95 # sub_spaces db (dropWhile (is_space db) cs)
      else c # sub_spaces db cs)"
  by pat_completeness auto
termination
  by (relation "measure (\<lambda>(db, s). length s)") (auto simp: length_dropWhile_le less_Suc_eq_le)

definition sanitize_filename :: "unicode_db \<Rightarrow> ustr \<Rightarrow> ustr" where
  "sanitize_filename db filename = take 200 (sub_spaces db (sub_invalid db filename))"

subsection \<open>bytes.decode() and str.strip()\<close>

text \<open>
  \<^verbatim>\<open>stderr.decode()\<close> is strict UTF-8: it raises \<open>UnicodeDecodeError\<close> on a byte sequence
  that is not well-formed (a stray continuation byte, an overlong form, a surrogate, a value
  above U+10FFFF, a truncated sequence). \<open>None\<close> is that exception.
\<close>

definition utf8_cont :: "nat \<Rightarrow> bool" where
  "utf8_cont b = (128 \<le> b \<and> b < 192)"

definition utf8_lo :: "nat \<Rightarrow> nat" where
  "utf8_lo b = (if b = 224 then 160 else if b = 240 then 144 else 128)"

definition utf8_hi :: "nat \<Rightarrow> nat" where
  "utf8_hi b = (if b = 237 then 160 else if b = 244 then 144 else 192)"

definition utf8_next :: "nat \<Rightarrow> nat list \<Rightarrow> (nat \<times> nat list) option" where
  "utf8_next b bs =
     (if b < 128 then Some (b, bs)
      else if 194 \<le> b \<and> b < 224 then
        (case bs of
           c1 # r \<Rightarrow>
             if utf8_cont c1 then Some ((b - 192) * 64 + (c1 - 128), r) else None
         | _ \<Rightarrow> None)
      else if 224 \<le> b \<and> b < 240 then
        (case bs of
           c1 # c2 # r \<Rightarrow>
             if utf8_lo b \<le> c1 \<and> c1 < utf8_hi b \<and> utf8_cont c2
             then Some ((b - 224) * 4096 + (c1 - 128) * 64 + (c2 - 128), r)
             else None
         | _ \<Rightarrow> None)
      else if 240 \<le> b \<and> b < 245 then
        (case bs of
           c1 # c2 # c3 # r \<Rightarrow>
             if utf8_lo b \<le> c1 \<and> c1 < utf8_hi b \<and> utf8_cont c2 \<and> utf8_cont c3
             then Some ((b - 240) * 262144 + (c1 - 128) * 4096 + (c2 - 128) * 64 + (c3 - 128), r)
             else None
         | _ \<Rightarrow> None)
      else None)"

function utf8_codepoints :: "nat list \<Rightarrow> ustr option" where
  "utf8_codepoints [] = Some []"
| "utf8_codepoints (b # bs) =
     (case utf8_next b bs of
        None \<Rightarrow> None
      | Some (c, r) \<Rightarrow> map_option ((#) c) (utf8_codepoints r))"
  by pat_completeness auto
termination
  by (relation "measure length") (auto simp: utf8_next_def split: if_splits list.splits)

definition bytes_decode :: "string \<Rightarrow> ustr option" where
  "bytes_decode bs = utf8_codepoints (map of_char bs)"

definition str_strip :: "unicode_db \<Rightarrow> ustr \<Rightarrow> ustr" where
  "str_strip db s = rev (dropWhile (is_space db) (rev (dropWhile (is_space db) s)))"

section \<open>Python values read from the metadata document\<close>

text \<open>
  \<^verbatim>\<open>json.loads\<close> yields \<open>None\<close>, \<open>bool\<close>, \<open>int\<close>, \<open>float\<close>, \<open>str\<close>, \<open>list\<close> or \<open>dict\<close>.
  A float is kept as its 64 IEEE bits: the handlers only pass floats on and test their truth
  value. A dict is an association list read with \<open>map_of\<close>. The dicts that \<open>/formats\<close>
  returns are values of the same type.
\<close>

datatype json =
    JNull
  | JBool bool
  | JInt int
  | JFloat "64 word"
  | JStr ustr
  | JArr "json list"
  | JObj "(ustr \<times> json) list"

text \<open>Truth value of a Python object, as used by \<open>if x\<close> and \<open>x or y\<close>.\<close>

fun truthy :: "json \<Rightarrow> bool" where
  "truthy JNull = False"
| "truthy (JBool b) = b"
| "truthy (JInt i) = (i \<noteq> 0)"
| "truthy (JFloat w) = (w \<noteq> 0 \<and> w \<noteq> 0x8000000000000000)"
| "truthy (JStr s) = (s \<noteq> [])"
| "truthy (JArr xs) = (xs \<noteq> [])"
| "truthy (JObj kvs) = (kvs \<noteq> [])"

definition py_or :: "json \<Rightarrow> json \<Rightarrow> json" where
  "py_or a b = (if truthy a then a else b)"

text \<open>\<^verbatim>\<open>d.get(key, default)\<close> on a dict; \<^verbatim>\<open>d.get(key)\<close> has the default \<open>None\<close>.\<close>

definition dict_get :: "(ustr \<times> json) list \<Rightarrow> ustr \<Rightarrow> json \<Rightarrow> json" where
  "dict_get d key dflt = (case map_of d key of Some v \<Rightarrow> v | None \<Rightarrow> dflt)"

section \<open>Exceptions, subprocesses and the runtime\<close>

text \<open>
  The handlers tell three kinds of exception apart: \<open>HTTPException\<close>, \<open>json.JSONDecodeError\<close>
  and every other \<open>Exception\<close>. \<open>OtherError\<close> stands for the exceptions of the last kind
  whose class does not matter (\<open>AttributeError\<close>, \<open>TypeError\<close>, \<open>KeyError\<close>, \<open>OSError\<close>,
  a validation error of the response model). The detail of an HTTP error is either a text
  that the source builds, or \<open>str(e)\<close> of a caught exception, kept symbolic.
\<close>

datatype lib_exc = JSONDecodeError | UnicodeDecodeError | OtherError

datatype py_exc =
    Lib lib_exc
  | HTTPException nat detail
and detail =
    Text ustr
  | StrOf py_exc

text \<open>A finished subprocess, as \<^verbatim>\<open>communicate()\<close> and \<^verbatim>\<open>returncode\<close> show it.\<close>

record process =
  returncode :: int
  stdout :: string
  stderr :: string

record DownloadRequest =
  videoUrl :: ustr
  quality :: "ustr option"

record InfoResponse =
  title :: json
  duration :: json
  uploader :: json
  upload_date :: json
  view_count :: json
  like_count :: json
  comment_count :: json
  platform :: json
  thumbnail :: json
  formats_available :: json
  filesize_approx :: json
  description :: json

text \<open>
  What the handlers call and this repository does not define:
  \<^item> \<open>create_subprocess_exec\<close>: spawning \<open>argv\<close> either raises or gives a process, of which
    the model keeps the exit code and the two captured streams;
  \<^item> \<open>json_loads\<close>: the parser, which raises or returns the parsed document;
  \<^item> \<open>InfoResponse_init\<close>: the validation that the response model runs on the constructor's
    arguments, which raises or returns the (possibly coerced) fields;
  \<^item> the Unicode database.
\<close>

record runtime =
  udb :: unicode_db
  create_subprocess_exec :: "ustr list \<Rightarrow> lib_exc + process"
  json_loads :: "string \<Rightarrow> lib_exc + json"
  InfoResponse_init :: "InfoResponse \<Rightarrow> lib_exc + InfoResponse"

text \<open>
  The body of a \<open>StreamingResponse\<close>: the generator object \<^verbatim>\<open>stream_yt_dlp(url, quality)\<close>
  (the second argument is called \<open>qual\<close> below, \<open>quality\<close> being the request's field),
  which has not run yet when the handler returns, or the closure \<^verbatim>\<open>stream_output()\<close> of
  \<open>/download/format\<close> over the process it has already spawned with the given arguments.
\<close>

datatype body_iterator =
    StreamYtDlp ustr ustr
  | StreamOutput "ustr list"

record StreamingResponse =
  body :: body_iterator
  media_type :: ustr
  headers :: "(ustr \<times> ustr) list"

section \<open>Argument vectors of the extraction tool\<close>

text \<open>The \<open>cmd\<close> lists of the source, one definition per list, in the order of the file.\<close>

definition stream_yt_dlp_cmd :: "ustr \<Rightarrow> ustr \<Rightarrow> ustr list" where
  "stream_yt_dlp_cmd url qual =
     [U ''yt-dlp'', url,
      U ''-f'', qual @ U ''[ext=mp4]/best[ext=mp4]/best'',
      U ''-o'', U ''-'',
      U ''--no-playlist'', U ''--no-warnings'', U ''--no-call-home'',
      U ''--no-check-certificate'', U ''--prefer-free-formats'']"

definition get_video_info_cmd :: "ustr \<Rightarrow> ustr list" where
  "get_video_info_cmd url =
     [U ''yt-dlp'', url, U ''--dump-json'',
      U ''--no-playlist'', U ''--no-warnings'', U ''--no-call-home'',
      U ''--no-check-certificate'']"

definition download_video_cmd_info :: "ustr \<Rightarrow> ustr list" where
  "download_video_cmd_info url =
     [U ''yt-dlp'', url, U ''--dump-json'',
      U ''--no-playlist'', U ''--no-warnings'', U ''--no-call-home'',
      U ''--no-check-certificate'']"

definition download_format_cmd_info :: "ustr \<Rightarrow> ustr list" where
  "download_format_cmd_info url =
     [U ''yt-dlp'', url, U ''--dump-json'', U ''--no-playlist'', U ''--no-warnings'']"

definition download_format_cmd :: "ustr \<Rightarrow> ustr \<Rightarrow> ustr list" where
  "download_format_cmd url format_id =
     [U ''yt-dlp'', url, U ''-f'', format_id, U ''-o'', U ''-'',
      U ''--no-playlist'', U ''--no-warnings'']"

definition get_formats_cmd :: "ustr \<Rightarrow> ustr list" where
  "get_formats_cmd url =
     [U ''yt-dlp'', url, U ''--dump-json'', U ''--no-playlist'', U ''--no-warnings'']"

section \<open>The stream relay\<close>

text \<open>
  \<open>stream_yt_dlp\<close> is an asynchronous generator. Its run is the sequence of what it does to
  the subprocess and of the chunks it yields. \<open>Terminate\<close> and \<open>Kill\<close> are the two calls of
  the process interface that end a child; \<open>Wait\<close> is \<^verbatim>\<open>await process.wait()\<close>, which reaps it.

  The run depends on the results of the successive \<^verbatim>\<open>read(8192)\<close> calls (after the listed
  ones the pipe is at end of file and a read returns \<open>b''\<close>) and on the consumer: it either
  pulls until the generator is exhausted, or pulls \<open>n\<close> times and then closes or abandons
  the generator. A generator that is closed while it is suspended at \<open>yield\<close> receives
  \<open>GeneratorExit\<close> there; the source has no \<open>try\<close> around the loop, so nothing more runs.
\<close>

datatype relay_event =
    Exec "ustr list"
  | Read nat
  | Yield string
  | Wait
  | Terminate
  | Kill
  | Raise lib_exc

datatype consumer = UntilEnd | Pulls nat

fun stream_yt_dlp_loop :: "string list \<Rightarrow> consumer \<Rightarrow> relay_event list" where
  "stream_yt_dlp_loop [] c = [Read 8192, Wait]"
| "stream_yt_dlp_loop (chunk # reads) c =
     (if chunk = [] then [Read 8192, Wait]
      else Read 8192 # Yield chunk #
        (case c of
           UntilEnd \<Rightarrow> stream_yt_dlp_loop reads UntilEnd
         | Pulls n \<Rightarrow> if n \<le> 1 then [] else stream_yt_dlp_loop reads (Pulls (n - 1))))"

definition stream_yt_dlp ::
  "runtime \<Rightarrow> ustr \<Rightarrow> ustr \<Rightarrow> string list \<Rightarrow> consumer \<Rightarrow> relay_event list" where
  "stream_yt_dlp rt url qual reads c =
     (if c = Pulls 0 then []
      else
        let cmd = stream_yt_dlp_cmd url qual in
        case create_subprocess_exec rt cmd of
          Inl e \<Rightarrow> [Exec cmd, Raise e]
        | Inr process \<Rightarrow> Exec cmd # stream_yt_dlp_loop reads c)"

text \<open>The inner generator \<open>stream_output\<close> of \<open>/download/format\<close>: the same loop, no wait.\<close>

fun stream_output :: "string list \<Rightarrow> consumer \<Rightarrow> relay_event list" where
  "stream_output [] c = (if c = Pulls 0 then [] else [Read 8192])"
| "stream_output (chunk # reads) c =
     (if c = Pulls 0 then []
      else if chunk = [] then [Read 8192]
      else Read 8192 # Yield chunk #
        (case c of
           UntilEnd \<Rightarrow> stream_output reads UntilEnd
         | Pulls n \<Rightarrow> stream_output reads (Pulls (n - 1))))"

fun iterate_body ::
  "runtime \<Rightarrow> body_iterator \<Rightarrow> string list \<Rightarrow> consumer \<Rightarrow> relay_event list" where
  "iterate_body rt (StreamYtDlp url qual) reads c = stream_yt_dlp rt url qual reads c"
| "iterate_body rt (StreamOutput cmd) reads c = stream_output reads c"

section \<open>The handlers\<close>

text \<open>
  A handler returns the argument vectors it has passed to \<open>create_subprocess_exec\<close>, in
  order, and either the exception it raises or its response.
\<close>

type_synonym 'a handled = "ustr list list \<times> (py_exc + 'a)"

text \<open>
  \<^verbatim>\<open>error_msg = stderr.decode().strip()\<close> and
  \<^verbatim>\<open>raise HTTPException(status_code=400, detail=f"yt-dlp error: {error_msg}")\<close>:
  the exception that leaves these two lines.
\<close>

definition yt_dlp_error :: "unicode_db \<Rightarrow> string \<Rightarrow> py_exc" where
  "yt_dlp_error db err =
     (case bytes_decode err of
        None \<Rightarrow> Lib UnicodeDecodeError
      | Some error_msg \<Rightarrow> HTTPException 400 (Text (U ''yt-dlp error: '' @ str_strip db error_msg)))"

subsection \<open>/info\<close>

text \<open>\<open>len(x)\<close>, \<open>x[-1]\<close>: \<open>None\<close> where Python raises.\<close>

fun py_len :: "json \<Rightarrow> nat option" where
  "py_len (JStr s) = Some (length s)"
| "py_len (JArr xs) = Some (length xs)"
| "py_len (JObj d) = Some (length (remdups (map fst d)))"
| "py_len v = None"

fun py_last :: "json \<Rightarrow> json option" where
  "py_last (JStr s) = (if s = [] then None else Some (JStr [last s]))"
| "py_last (JArr xs) = (if xs = [] then None else Some (last xs))"
| "py_last v = None"

definition resolve_thumbnail :: "(ustr \<times> json) list \<Rightarrow> lib_exc + json" where
  "resolve_thumbnail info =
     (if truthy (dict_get info (U ''thumbnails'') JNull) then
        (let thumbnails = dict_get info (U ''thumbnails'') JNull in
         if truthy thumbnails then
           (case py_last thumbnails of
              Some (JObj t) \<Rightarrow> Inr (dict_get t (U ''url'') JNull)
            | _ \<Rightarrow> Inl OtherError)
         else Inr JNull)
      else if truthy (dict_get info (U ''thumbnail'') JNull)
        then Inr (dict_get info (U ''thumbnail'') JNull)
      else Inr JNull)"

text \<open>
  \<^verbatim>\<open>if description and len(description) > 500: description = description[:500] + "..."\<close>
  on whatever value the document holds: \<open>len\<close> of a number raises, and so does adding a
  string to the slice of a list.
\<close>

definition clean_description :: "json \<Rightarrow> lib_exc + json" where
  "clean_description d =
     (if truthy d then
        (case py_len d of
           None \<Rightarrow> Inl OtherError
         | Some n \<Rightarrow>
             if n > 500 then
               (case d of
                  JStr s \<Rightarrow> Inr (JStr (take 500 s @ U ''...''))
                | _ \<Rightarrow> Inl OtherError)
             else Inr d)
      else Inr d)"

definition InfoResponse_args :: "(ustr \<times> json) list \<Rightarrow> lib_exc + InfoResponse" where
  "InfoResponse_args info =
     (case resolve_thumbnail info of
        Inl e \<Rightarrow> Inl e
      | Inr thumb \<Rightarrow>
     (case clean_description (dict_get info (U ''description'') (JStr [])) of
        Inl e \<Rightarrow> Inl e
      | Inr descr \<Rightarrow>
     (case py_len (dict_get info (U ''formats'') (JArr [])) of
        None \<Rightarrow> Inl OtherError
      | Some n \<Rightarrow>
          Inr \<lparr> title = dict_get info (U ''title'') (JStr (U ''Unknown Title'')),
                duration = dict_get info (U ''duration'') JNull,
                uploader = py_or (py_or (dict_get info (U ''uploader'') JNull)
                                        (dict_get info (U ''channel'') JNull))
                                 (dict_get info (U ''creator'') JNull),
                upload_date = dict_get info (U ''upload_date'') JNull,
                view_count = dict_get info (U ''view_count'') JNull,
                like_count = dict_get info (U ''like_count'') JNull,
                comment_count = dict_get info (U ''comment_count'') JNull,
                platform = dict_get info (U ''extractor_key'') (JStr (U ''Unknown'')),
                thumbnail = thumb,
                formats_available = JInt (int n),
                filesize_approx = py_or (dict_get info (U ''filesize_approx'') JNull)
                                        (dict_get info (U ''filesize'') JNull),
                description = descr \<rparr>)))"

text \<open>The \<open>try\<close> block of \<open>get_video_info\<close>; a document that is not a dict has no \<open>get\<close>.\<close>

definition get_video_info_try :: "runtime \<Rightarrow> DownloadRequest \<Rightarrow> py_exc + InfoResponse" where
  "get_video_info_try rt request =
     (case create_subprocess_exec rt (get_video_info_cmd (videoUrl request)) of
        Inl e \<Rightarrow> Inl (Lib e)
      | Inr p \<Rightarrow>
          if returncode p \<noteq> 0 then Inl (yt_dlp_error (udb rt) (stderr p))
          else
            (case json_loads rt (stdout p) of
               Inl e \<Rightarrow> Inl (Lib e)
             | Inr (JObj info) \<Rightarrow>
                 (case InfoResponse_args info of
                    Inl e \<Rightarrow> Inl (Lib e)
                  | Inr args \<Rightarrow>
                      (case InfoResponse_init rt args of
                         Inl e \<Rightarrow> Inl (Lib e)
                       | Inr r \<Rightarrow> Inr r))
             | Inr _ \<Rightarrow> Inl (Lib OtherError)))"

text \<open>
  \<^verbatim>\<open>except json.JSONDecodeError: raise HTTPException(500, "Failed to parse video information")\<close>
  \<^verbatim>\<open>except Exception as e: raise HTTPException(500, str(e))\<close>.
  \<open>HTTPException\<close> is an \<open>Exception\<close>, and there is no clause that re-raises it.
\<close>

fun get_video_info_except :: "py_exc \<Rightarrow> py_exc" where
  "get_video_info_except (Lib JSONDecodeError) =
     HTTPException 500 (Text (U ''Failed to parse video information''))"
| "get_video_info_except e = HTTPException 500 (StrOf e)"

definition get_video_info :: "runtime \<Rightarrow> DownloadRequest \<Rightarrow> InfoResponse handled" where
  "get_video_info rt request =
     ([get_video_info_cmd (videoUrl request)],
      case get_video_info_try rt request of
        Inl e \<Rightarrow> Inl (get_video_info_except e)
      | Inr r \<Rightarrow> Inr r)"

subsection \<open>/download\<close>

text \<open>
  \<^verbatim>\<open>title = sanitize_filename(info.get('title', 'video'))\<close>: \<open>get\<close> needs a dict, and
  \<open>re.sub\<close> raises \<open>TypeError\<close> on a title that is not a string.
\<close>

definition filename_title :: "unicode_db \<Rightarrow> json \<Rightarrow> lib_exc + ustr" where
  "filename_title db info =
     (case info of
        JObj d \<Rightarrow>
          (case dict_get d (U ''title'') (JStr (U ''video'')) of
             JStr t \<Rightarrow> Inr (sanitize_filename db t)
           | _ \<Rightarrow> Inl OtherError)
      | _ \<Rightarrow> Inl OtherError)"

text \<open>
  \<^verbatim>\<open>if quality not in ['best', 'worst', '720p', '480p', '360p']: quality = 'best'\<close>.
  The field is \<open>Optional[str]\<close>; \<open>None\<close> is not in the list.
\<close>

definition normalize_quality :: "ustr option \<Rightarrow> ustr" where
  "normalize_quality q =
     (case q of
        None \<Rightarrow> U ''best''
      | Some s \<Rightarrow>
          if s \<in> set [U ''best'', U ''worst'', U ''720p'', U ''480p'', U ''360p'']
          then s else U ''best'')"

definition format_map :: "(ustr \<times> ustr) list" where
  "format_map =
     [(U ''best'', U ''best[ext=mp4]/best''),
      (U ''worst'', U ''worst[ext=mp4]/worst''),
      (U ''720p'', U ''best[height<=720][ext=mp4]/best[height<=720]''),
      (U ''480p'', U ''best[height<=480][ext=mp4]/best[height<=480]''),
      (U ''360p'', U ''best[height<=360][ext=mp4]/best[height<=360]'')]"

text \<open>\<^verbatim>\<open>format_spec = format_map.get(quality, 'best[ext=mp4]/best')\<close> after the normalization.\<close>

definition format_spec :: "ustr option \<Rightarrow> ustr" where
  "format_spec q =
     (case map_of format_map (normalize_quality q) of
        Some e \<Rightarrow> e
      | None \<Rightarrow> U ''best[ext=mp4]/best'')"

text \<open>
  The \<open>try\<close> block of \<open>download_video\<close>. The generator object is created, not run. The
  character 34 is the double quote of the header value.
\<close>

definition download_video_try :: "runtime \<Rightarrow> DownloadRequest \<Rightarrow> py_exc + StreamingResponse" where
  "download_video_try rt request =
     (case create_subprocess_exec rt (download_video_cmd_info (videoUrl request)) of
        Inl e \<Rightarrow> Inl (Lib e)
      | Inr p \<Rightarrow>
          if returncode p \<noteq> 0 then Inl (yt_dlp_error (udb rt) (stderr p))
          else
            (case json_loads rt (stdout p) of
               Inl e \<Rightarrow> Inl (Lib e)
             | Inr info \<Rightarrow>
                 (case filename_title (udb rt) info of
                    Inl e \<Rightarrow> Inl (Lib e)
                  | Inr t \<Rightarrow>
                      let stream_generator = StreamYtDlp (videoUrl request) (format_spec (quality request));
                          filename = t @ U ''.mp4''
                      in Inr \<lparr> body = stream_generator,
                               media_type = U ''video/mp4'',
                               headers =
                                 [(U ''Content-Disposition'',
                                   U ''attachment; filename='' @ [34] @ filename @ [34]),
                                  (U ''Access-Control-Expose-Headers'',
                                   U ''Content-Disposition'')] \<rparr>)))"

text \<open>
  \<^verbatim>\<open>except HTTPException: raise\<close>
  \<^verbatim>\<open>except Exception as e: raise HTTPException(status_code=500, detail=str(e))\<close>.
\<close>

fun download_video_except :: "py_exc \<Rightarrow> py_exc" where
  "download_video_except (HTTPException code d) = HTTPException code d"
| "download_video_except (Lib e) = HTTPException 500 (StrOf (Lib e))"

definition download_video :: "runtime \<Rightarrow> DownloadRequest \<Rightarrow> StreamingResponse handled" where
  "download_video rt request =
     ([download_video_cmd_info (videoUrl request)],
      case download_video_try rt request of
        Inl e \<Rightarrow> Inl (download_video_except e)
      | Inr r \<Rightarrow> Inr r)"

text \<open>
  Serving a request: the handler runs; when it has returned a response, the server iterates
  the body, and only then does the generator spawn the streaming subprocess. The result is
  everything that happened to subprocesses, and the handler's outcome.
\<close>

definition serve ::
  "runtime \<Rightarrow> StreamingResponse handled \<Rightarrow> string list \<Rightarrow> consumer
     \<Rightarrow> relay_event list \<times> (py_exc + StreamingResponse)" where
  "serve rt h reads c =
     (case snd h of
        Inl e \<Rightarrow> (map Exec (fst h), Inl e)
      | Inr r \<Rightarrow> (map Exec (fst h) @ iterate_body rt (body r) reads c, Inr r))"

subsection \<open>/download/format\<close>

text \<open>\<^verbatim>\<open>except Exception as e: raise HTTPException(status_code=500, detail=str(e))\<close>\<close>

definition internal_error :: "lib_exc \<Rightarrow> py_exc" where
  "internal_error e = HTTPException 500 (StrOf (Lib e))"

text \<open>
  The exit code of the metadata process is not read and its error stream is dropped
  (\<^verbatim>\<open>stdout_info, _ = await process_info.communicate()\<close>). The streaming process is spawned
  by the handler itself.
\<close>

definition download_format ::
  "runtime \<Rightarrow> DownloadRequest \<Rightarrow> ustr \<Rightarrow> StreamingResponse handled" where
  "download_format rt request format_id =
     (let cmd_info = download_format_cmd_info (videoUrl request) in
      case create_subprocess_exec rt cmd_info of
        Inl e \<Rightarrow> ([cmd_info], Inl (internal_error e))
      | Inr process_info \<Rightarrow>
          (case json_loads rt (stdout process_info) of
             Inl e \<Rightarrow> ([cmd_info], Inl (internal_error e))
           | Inr info \<Rightarrow>
               (case filename_title (udb rt) info of
                  Inl e \<Rightarrow> ([cmd_info], Inl (internal_error e))
                | Inr t \<Rightarrow>
                    let cmd = download_format_cmd (videoUrl request) format_id in
                    (case create_subprocess_exec rt cmd of
                       Inl e \<Rightarrow> ([cmd_info, cmd], Inl (internal_error e))
                     | Inr p \<Rightarrow>
                         ([cmd_info, cmd],
                          Inr \<lparr> body = StreamOutput cmd,
                                media_type = U ''video/mp4'',
                                headers =
                                  [(U ''Content-Disposition'',
                                    U ''attachment; filename='' @ [34] @ t @ U ''.mp4'' @ [34])]
                              \<rparr>)))))"

subsection \<open>/formats\<close>

text \<open>
  \<^verbatim>\<open>for f in info.get('formats', [])\<close>: a list gives its elements, a string its characters,
  a dict its keys; anything else is not iterable.
\<close>

fun py_iter :: "json \<Rightarrow> json list option" where
  "py_iter (JArr xs) = Some xs"
| "py_iter (JStr s) = Some (map (\<lambda>c. JStr [c]) s)"
| "py_iter (JObj d) = Some (map JStr (remdups (map fst d)))"
| "py_iter v = None"

text \<open>The dict that the loop appends for an entry \<open>f\<close>.\<close>

definition format_entry :: "(ustr \<times> json) list \<Rightarrow> json" where
  "format_entry f =
     JObj [(U ''format_id'', dict_get f (U ''format_id'') JNull),
           (U ''ext'', dict_get f (U ''ext'') JNull),
           (U ''quality'',
              py_or (py_or (dict_get f (U ''format_note'') JNull)
                           (dict_get f (U ''quality'') JNull))
                    (JStr (U ''Unknown''))),
           (U ''filesize'',
              py_or (dict_get f (U ''filesize'') JNull) (dict_get f (U ''filesize_approx'') JNull)),
           (U ''vcodec'', dict_get f (U ''vcodec'') JNull),
           (U ''acodec'', dict_get f (U ''acodec'') JNull),
           (U ''height'', dict_get f (U ''height'') JNull),
           (U ''width'', dict_get f (U ''width'') JNull),
           (U ''fps'', dict_get f (U ''fps'') JNull)]"

text \<open>The loop, with the list \<open>formats\<close> built so far; an entry that is not a dict has no \<open>get\<close>.\<close>

fun collect_formats :: "json list \<Rightarrow> json list \<Rightarrow> lib_exc + json list" where
  "collect_formats [] formats = Inr formats"
| "collect_formats (JObj f # fs) formats =
     (if dict_get f (U ''vcodec'') JNull \<noteq> JStr (U ''none'')
         \<or> dict_get f (U ''acodec'') JNull \<noteq> JStr (U ''none'')
      then collect_formats fs (formats @ [format_entry f])
      else collect_formats fs formats)"
| "collect_formats (v # fs) formats = Inl OtherError"

definition get_formats :: "runtime \<Rightarrow> DownloadRequest \<Rightarrow> json handled" where
  "get_formats rt request =
     (let cmd = get_formats_cmd (videoUrl request) in
      (case create_subprocess_exec rt cmd of
         Inl e \<Rightarrow> ([cmd], Inl (internal_error e))
       | Inr p \<Rightarrow>
           (case json_loads rt (stdout p) of
              Inl e \<Rightarrow> ([cmd], Inl (internal_error e))
            | Inr (JObj info) \<Rightarrow>
                (case py_iter (dict_get info (U ''formats'') (JArr [])) of
                   None \<Rightarrow> ([cmd], Inl (internal_error OtherError))
                 | Some fs \<Rightarrow>
                     (case collect_formats fs [] of
                        Inl e \<Rightarrow> ([cmd], Inl (internal_error e))
                      | Inr formats \<Rightarrow>
                          ([cmd],
                           Inr (JObj [(U ''title'', dict_get info (U ''title'') JNull),
                                      (U ''formats'', JArr formats),
                                      (U ''format_count'', JInt (int (length formats)))]))))
            | Inr _ \<Rightarrow> ([cmd], Inl (internal_error OtherError)))))"

section \<open>Scenarios\<close>

text \<open>
  Concrete inputs for the closed theorems below: a Unicode database with nothing above
  ASCII, and a runtime in which every spawned process is \<open>p\<close> and the parser answers \<open>j\<close>.
  The request and the metadata are those of the specification's end-to-end scenario; the
  failing process is the one of its error scenario.
\<close>

definition ascii_db :: unicode_db where
  "ascii_db = \<lparr>uni_alnum = (\<lambda>c. False), uni_space = (\<lambda>c. False)\<rparr>"

definition scenario :: "process \<Rightarrow> lib_exc + json \<Rightarrow> runtime" where
  "scenario p j =
     \<lparr>udb = ascii_db,
      create_subprocess_exec = (\<lambda>argv. Inr p),
      json_loads = (\<lambda>b. j),
      InfoResponse_init = Inr\<rparr>"

definition clip_request :: "ustr option \<Rightarrow> DownloadRequest" where
  "clip_request q = \<lparr>videoUrl = U ''https://example.com/v/abc'', quality = q\<rparr>"

definition clip_stdout :: string where
  \<open>clip_stdout = ''{"title": "My Clip!", "ext": "mp4"}''\<close>

definition clip_metadata :: json where
  "clip_metadata = JObj [(U ''title'', JStr (U ''My Clip!'')), (U ''ext'', JStr (U ''mp4''))]"

definition clip_process :: process where
  "clip_process = \<lparr>returncode = 0, stdout = clip_stdout, stderr = []\<rparr>"

definition unsupported_url :: process where
  "unsupported_url = \<lparr>returncode = 1, stdout = [], stderr = ''ERROR: Unsupported URL''\<rparr>"

definition undecodable :: process where
  "undecodable = \<lparr>returncode = 1, stdout = [], stderr = [CHR 0xFF]\<rparr>"

definition ten_chunks :: "string list" where
  "ten_chunks = map (\<lambda>c. [c]) ''0123456789''"

definition three_entries :: "(ustr \<times> json) list list" where
  "three_entries =
     [[(U ''format_id'', JStr (U ''sb0'')),
       (U ''vcodec'', JStr (U ''none'')), (U ''acodec'', JStr (U ''none''))],
      [(U ''format_id'', JStr (U ''140'')), (U ''ext'', JStr (U ''m4a'')),
       (U ''vcodec'', JStr (U ''none'')), (U ''acodec'', JStr (U ''mp4a'')),
       (U ''quality'', JInt 0)],
      [(U ''format_id'', JStr (U ''22'')), (U ''ext'', JStr (U ''mp4'')),
       (U ''format_note'', JStr (U ''720p'')), (U ''filesize_approx'', JInt 1000),
       (U ''vcodec'', JStr (U ''avc1'')), (U ''acodec'', JStr (U ''mp4a'')),
       (U ''height'', JInt 720), (U ''width'', JInt 1280), (U ''fps'', JInt 30)]]"

definition three_formats :: "(ustr \<times> json) list" where
  "three_formats =
     [(U ''title'', JStr (U ''My Clip!'')), (U ''formats'', JArr (map JObj three_entries))]"

definition described :: "ustr \<Rightarrow> (ustr \<times> json) list" where
  "described s = [(U ''title'', JStr (U ''My Clip!'')), (U ''description'', JStr s)]"

lemma scenario_simps:
  "udb (scenario p j) = ascii_db"
  "create_subprocess_exec (scenario p j) argv = Inr p"
  "json_loads (scenario p j) b = j"
  "InfoResponse_init (scenario p j) a = Inr a"
  by (simp_all add: scenario_def)

lemma clip_request_simps:
  "videoUrl (clip_request q) = U ''https://example.com/v/abc''"
  "quality (clip_request q) = q"
  by (simp_all add: clip_request_def)

section \<open>Filename sanitization\<close>

lemma underscore_word: "is_word db 95"
  by (simp add: is_word_def)

lemma underscore_not_space: "\<not> is_space db 95"
  by (simp add: is_space_def ascii_space_def)

lemma sub_invalid_chars:
  "c \<in> set (sub_invalid db s) \<Longrightarrow> is_word db c \<or> is_space db c \<or> c = 45"
  by (auto simp: sub_invalid_def underscore_word split: if_splits)

lemma sub_spaces_chars:
  "c \<in> set (sub_spaces db s) \<Longrightarrow> c = 95 \<or> (c \<in> set s \<and> \<not> is_space db c)"
proof (induction db s rule: sub_spaces.induct)
  case (1 db)
  then show ?case by simp
next
  case (2 db x xs)
  show ?case
  proof (cases "is_space db x")
    case True
    with 2 have "c = 95 \<or> c \<in> set (sub_spaces db (dropWhile (is_space db) xs))" by simp
    with 2 True show ?thesis by (auto dest: set_dropWhileD)
  next
    case False
    with 2 show ?thesis by auto
  qed
qed

lemma sub_spaces_id: "\<forall>c \<in> set s. \<not> is_space db c \<Longrightarrow> sub_spaces db s = s"
  by (induction s) auto

lemma sub_invalid_id: "\<forall>c \<in> set s. is_word db c \<or> c = 45 \<Longrightarrow> sub_invalid db s = s"
  by (induction s) (auto simp: sub_invalid_def)

lemma sanitize_chars:
  assumes "c \<in> set (sanitize_filename db s)"
  shows "(is_word db c \<or> c = 45) \<and> \<not> is_space db c"
proof -
  from assms have "c \<in> set (sub_spaces db (sub_invalid db s))"
    by (auto simp: sanitize_filename_def dest: in_set_takeD)
  then have "c = 95 \<or> (c \<in> set (sub_invalid db s) \<and> \<not> is_space db c)"
    by (rule sub_spaces_chars)
  then show ?thesis
    using sub_invalid_chars [of c db s] underscore_word [of db] underscore_not_space [of db]
    by auto
qed

lemma sanitize_example:
  "sanitize_filename ascii_db (U ''My Clip!'')
     = U ''My_Clip_''"
  by (simp add: sanitize_filename_def sub_invalid_def is_word_def is_space_def
        ascii_alnum_def ascii_space_def ascii_db_def)

text \<open>
  Claim C4. For every input string and whatever the Unicode database says above ASCII,
  sanitizing a sanitized name changes nothing, the result has at most 200 characters, and
  every character of the result is a word character, the underscore or the hyphen.
\<close>

theorem sanitize_filename_idempotent_bounded_clean:
  "sanitize_filename db (sanitize_filename db s) = sanitize_filename db s
   \<and> length (sanitize_filename db s) \<le> 200
   \<and> (\<forall>c \<in> set (sanitize_filename db s). is_word db c \<or> c = 95 \<or> c = 45)"
proof -
  let ?t = "sanitize_filename db s"
  have len: "length ?t \<le> 200" by (simp add: sanitize_filename_def)
  have w: "\<forall>c \<in> set ?t. is_word db c \<or> c = 45" using sanitize_chars by blast
  have ns: "\<forall>c \<in> set ?t. \<not> is_space db c" using sanitize_chars by blast
  have "sanitize_filename db ?t = take 200 ?t"
    unfolding sanitize_filename_def [of db ?t] sub_invalid_id [OF w] sub_spaces_id [OF ns] ..
  with len w show ?thesis by auto
qed

text \<open>The title \<open>My Clip!\<close> of the specification's scenario: its sanitized form \<open>My_Clip_\<close>
  contains the letter \<open>l\<close> (108), a word character, and is a fixed point.\<close>

theorem sanitize_filename_idempotent_bounded_clean_witness:
  "108 \<in> set (sanitize_filename ascii_db (U ''My Clip!''))
   \<and> (is_word ascii_db 108 \<or> (108::nat) = 95 \<or> (108::nat) = 45)
   \<and> sanitize_filename ascii_db (U ''My_Clip_'')
       = U ''My_Clip_''
   \<and> length (U ''My_Clip_'') \<le> 200"
  using sanitize_filename_idempotent_bounded_clean
          [of ascii_db "U ''My Clip!''"]
  unfolding sanitize_example
  by simp

section \<open>Quality tiers\<close>

text \<open>
  Claim C3. The normalization and lookup of \<open>/download\<close> is defined on every value of the
  request field: each of the five supported tiers gets its row of the table, and every other
  string (and \<open>None\<close>) gets the row of \<open>best\<close>.
\<close>

theorem format_spec_table:
  "format_spec (Some (U ''best'')) = U ''best[ext=mp4]/best''
   \<and> format_spec (Some (U ''worst'')) = U ''worst[ext=mp4]/worst''
   \<and> format_spec (Some (U ''720p'')) = U ''best[height<=720][ext=mp4]/best[height<=720]''
   \<and> format_spec (Some (U ''480p'')) = U ''best[height<=480][ext=mp4]/best[height<=480]''
   \<and> format_spec (Some (U ''360p'')) = U ''best[height<=360][ext=mp4]/best[height<=360]''
   \<and> (\<forall>s. s \<notin> {U ''best'', U ''worst'', U ''720p'', U ''480p'', U ''360p''}
          \<longrightarrow> format_spec (Some s) = U ''best[ext=mp4]/best'')
   \<and> format_spec None = U ''best[ext=mp4]/best''"
  by (simp add: format_spec_def normalize_quality_def format_map_def)

theorem format_spec_table_witness:
  "U ''1080p'' \<notin> {U ''best'', U ''worst'', U ''720p'', U ''480p'', U ''360p''}
   \<and> format_spec (Some (U ''1080p'')) = U ''best[ext=mp4]/best''"
  using format_spec_table by simp

section \<open>Description truncation\<close>

text \<open>
  The three lines that clean the description, on a string: it is kept when it has at most
  500 characters, and cut to its first 500 characters followed by three dots otherwise.
\<close>

lemma clean_description_string:
  "clean_description (JStr s)
     = Inr (JStr (if length s \<le> 500 then s else take 500 s @ U ''...''))"
  by (cases s) (simp_all add: clean_description_def)

text \<open>
  The \<open>description\<close> argument of the \<open>InfoResponse\<close> constructor is the cleaned description
  of the document, the default of \<open>get\<close> being the empty string.
\<close>

lemma InfoResponse_args_description:
  assumes "dict_get info (U ''description'') (JStr []) = JStr s"
    and "InfoResponse_args info = Inr args"
  shows "description args = JStr (if length s \<le> 500 then s else take 500 s @ U ''...'')"
  using assms
  by (auto simp: InfoResponse_args_def clean_description_string
      split: sum.splits option.splits)

text \<open>
  When the metadata process exits with code 0 and its output parses to a dict, \<open>/info\<close>
  answers exactly when the constructor's arguments can be computed and pass validation,
  and the answer is the validated model.
\<close>

lemma get_video_info_answer:
  assumes "create_subprocess_exec rt (get_video_info_cmd (videoUrl request)) = Inr p"
    and "returncode p = 0"
    and "json_loads rt (stdout p) = Inr (JObj info)"
  shows "snd (get_video_info rt request) = Inr response
         \<longleftrightarrow> (\<exists>args. InfoResponse_args info = Inr args
                    \<and> InfoResponse_init rt args = Inr response)"
  using assms
  by (auto simp: get_video_info_def get_video_info_try_def split: sum.splits)

text \<open>The answer of \<open>/info\<close> for a document with a title and the description \<open>s\<close>.\<close>

lemma described_answer:
  "snd (get_video_info (scenario clip_process (Inr (JObj (described s)))) (clip_request None))
     = Inr \<lparr>title = JStr (U ''My Clip!''), duration = JNull, uploader = JNull,
            upload_date = JNull, view_count = JNull, like_count = JNull,
            comment_count = JNull, platform = JStr (U ''Unknown''), thumbnail = JNull,
            formats_available = JInt 0, filesize_approx = JNull,
            description = JStr (if length s \<le> 500 then s else take 500 s @ U ''...'')\<rparr>"
  by (simp add: get_video_info_def get_video_info_try_def scenario_simps clip_process_def
        InfoResponse_args_def resolve_thumbnail_def clean_description_string dict_get_def
        described_def py_or_def)

text \<open>
  Claim C10. Let the metadata process of \<open>/info\<close> exit with code 0, let its output parse to
  a dict whose description is the string \<open>s\<close> (\<open>s\<close> is empty when the key is absent), and
  let the validation of the response model leave a string description as it is. Then
  every answer of \<open>/info\<close> reports, in its \<open>description\<close> field, \<open>s\<close> unchanged when \<open>s\<close> has
  at most 500 characters, and the first 500 characters of \<open>s\<close> followed by \<open>...\<close> when \<open>s\<close>
  is longer.
\<close>

theorem description_truncation:
  assumes spawn: "create_subprocess_exec rt (get_video_info_cmd (videoUrl request)) = Inr p"
    and exit: "returncode p = 0"
    and parse: "json_loads rt (stdout p) = Inr (JObj info)"
    and descr: "dict_get info (U ''description'') (JStr []) = JStr s"
    and valid: "\<forall>args r t. InfoResponse_init rt args = Inr r \<and> description args = JStr t
                  \<longrightarrow> description r = JStr t"
    and answer: "snd (get_video_info rt request) = Inr response"
  shows "(length s \<le> 500 \<longrightarrow> description response = JStr s)
       \<and> (500 < length s \<longrightarrow> description response = JStr (take 500 s @ U ''...''))"
proof -
  from answer obtain args
    where args: "InfoResponse_args info = Inr args"
      and init: "InfoResponse_init rt args = Inr response"
    using get_video_info_answer [OF spawn exit parse] by blast
  have "description args = JStr (if length s \<le> 500 then s else take 500 s @ U ''...'')"
    by (rule InfoResponse_args_description [OF descr args])
  with valid init
  have "description response = JStr (if length s \<le> 500 then s else take 500 s @ U ''...'')"
    by blast
  then show ?thesis by simp
qed

theorem description_truncation_witness:
  "returncode clip_process = 0
   \<and> length (U ''A clip'') \<le> 500
   \<and> (\<exists>r. snd (get_video_info (scenario clip_process (Inr (JObj (described (U ''A clip'')))))
                 (clip_request None)) = Inr r
          \<and> description r = JStr (U ''A clip''))
   \<and> 500 < length (replicate 501 (97::nat))
   \<and> (\<exists>r. snd (get_video_info (scenario clip_process (Inr (JObj (described (replicate 501 97)))))
                 (clip_request None)) = Inr r
          \<and> description r = JStr (replicate 500 97 @ U ''...''))"
proof -
  let ?rt = "\<lambda>s. scenario clip_process (Inr (JObj (described s)))"
  have exit: "returncode clip_process = 0"
    by (simp add: clip_process_def)
  have spawn: "create_subprocess_exec (?rt s) (get_video_info_cmd (videoUrl (clip_request None)))
                 = Inr clip_process" for s
    by (simp add: scenario_simps)
  have parse: "json_loads (?rt s) (stdout clip_process) = Inr (JObj (described s))" for s
    by (simp add: scenario_simps)
  have descr: "dict_get (described s) (U ''description'') (JStr []) = JStr s" for s
    by (simp add: dict_get_def described_def)
  have valid: "\<forall>args r t. InfoResponse_init (?rt s) args = Inr r \<and> description args = JStr t
                 \<longrightarrow> description r = JStr t" for s
    by (simp add: scenario_simps)
  obtain r1 where r1: "snd (get_video_info (?rt (U ''A clip'')) (clip_request None)) = Inr r1"
    using described_answer [of "U ''A clip''"] by blast
  obtain r2 where r2: "snd (get_video_info (?rt (replicate 501 97)) (clip_request None)) = Inr r2"
    using described_answer [of "replicate 501 97"] by blast
  have "description r1 = JStr (U ''A clip'')"
    using description_truncation [OF spawn exit parse descr valid r1] by simp
  moreover have "description r2 = JStr (replicate 500 97 @ U ''...'')"
    using description_truncation [OF spawn exit parse descr valid r2] by simp
  ultimately show ?thesis
    using exit r1 r2 by simp
qed

section \<open>The format argument of the streaming subprocess\<close>

text \<open>
  The handler hands the table's expression to \<open>stream_yt_dlp\<close>, which wraps what it is given
  once more: the fourth element of the argument vector is the expression followed by
  \<open>[ext=mp4]/best[ext=mp4]/best\<close>, whatever the tier.
\<close>

lemma stream_yt_dlp_cmd_f_argument:
  "stream_yt_dlp_cmd url (format_spec q) ! 2 = U ''-f''
   \<and> stream_yt_dlp_cmd url (format_spec q) ! 3
       = format_spec q @ U ''[ext=mp4]/best[ext=mp4]/best''"
  by (simp add: stream_yt_dlp_cmd_def)

text \<open>
  Claim C1 says that the \<open>-f\<close> argument of the streaming subprocess is the table's
  expression for the tier. The code at the specification's own scenario (tier \<open>720p\<close>, title
  \<open>My Clip!\<close>, the stream at end of file at once): the two processes spawned, with the
  argument that the streaming one really gets.
\<close>

theorem download_720p_f_argument:
  "fst (serve (scenario clip_process (Inr clip_metadata))
          (download_video (scenario clip_process (Inr clip_metadata))
             (clip_request (Some (U ''720p''))))
          [] UntilEnd)
   = [Exec [U ''yt-dlp'', U ''https://example.com/v/abc'', U ''--dump-json'',
            U ''--no-playlist'', U ''--no-warnings'', U ''--no-call-home'',
            U ''--no-check-certificate''],
      Exec [U ''yt-dlp'', U ''https://example.com/v/abc'',
            U ''-f'',
            U ''best[height<=720][ext=mp4]/best[height<=720][ext=mp4]/best[ext=mp4]/best'',
            U ''-o'', U ''-'',
            U ''--no-playlist'', U ''--no-warnings'', U ''--no-call-home'',
            U ''--no-check-certificate'', U ''--prefer-free-formats''],
      Read 8192, Wait]"
  by (simp add: serve_def download_video_def download_video_try_def scenario_simps clip_process_def
        clip_request_simps stream_yt_dlp_def stream_yt_dlp_cmd_def
        download_video_cmd_info_def Let_def
        format_spec_def normalize_quality_def format_map_def
        filename_title_def clip_metadata_def dict_get_def ascii_db_def
        sanitize_filename_def sub_invalid_def is_word_def is_space_def
        ascii_alnum_def ascii_space_def)

section \<open>Arguments common to every invocation\<close>

lemma get_formats_cmd_flags:
  "get_formats_cmd (U ''https://example.com/v/abc'')
     = [U ''yt-dlp'', U ''https://example.com/v/abc'', U ''--dump-json'',
        U ''--no-playlist'', U ''--no-warnings'']"
  by (simp add: get_formats_cmd_def)

text \<open>
  Claim C6 says that every invocation carries \<open>--no-playlist\<close>, \<open>--no-warnings\<close> and
  \<open>--no-check-certificate\<close>. The two invocations of \<open>/download/format\<close> at a request for
  format \<open>22\<close>: neither carries the third flag (nor does the one of \<open>/formats\<close>, above).
\<close>

theorem download_format_invocations_lack_no_check_certificate:
  "fst (download_format (scenario clip_process (Inr clip_metadata)) (clip_request None) (U ''22''))
     = [[U ''yt-dlp'', U ''https://example.com/v/abc'', U ''--dump-json'',
         U ''--no-playlist'', U ''--no-warnings''],
        [U ''yt-dlp'', U ''https://example.com/v/abc'', U ''-f'', U ''22'', U ''-o'', U ''-'',
         U ''--no-playlist'', U ''--no-warnings'']]
   \<and> U ''--no-check-certificate''
       \<notin> set [U ''yt-dlp'', U ''https://example.com/v/abc'', U ''--dump-json'',
                U ''--no-playlist'', U ''--no-warnings'']
   \<and> U ''--no-check-certificate''
       \<notin> set [U ''yt-dlp'', U ''https://example.com/v/abc'', U ''-f'', U ''22'', U ''-o'',
                U ''-'', U ''--no-playlist'', U ''--no-warnings'']"
  by (simp add: download_format_def download_format_cmd_info_def download_format_cmd_def
        scenario_simps clip_request_simps Let_def
        filename_title_def clip_metadata_def dict_get_def ascii_db_def
        sanitize_filename_def sub_invalid_def is_word_def is_space_def
        ascii_alnum_def ascii_space_def)

section \<open>Errors of /info\<close>

text \<open>
  Whenever the metadata process of \<open>/info\<close> exits with a non-zero code, the handler answers
  500: the 400 it raises is caught by its own last \<open>except\<close> clause.
\<close>

lemma get_video_info_nonzero_exit:
  assumes "create_subprocess_exec rt (get_video_info_cmd (videoUrl request)) = Inr p"
    and "returncode p \<noteq> 0"
  shows "\<exists>d. snd (get_video_info rt request) = Inl (HTTPException 500 d)"
  using assms
  by (auto simp: get_video_info_def get_video_info_try_def yt_dlp_error_def
      split: option.splits)

text \<open>
  Claim C7 says that \<open>/info\<close> answers 400 with the tool's diagnostic when the metadata
  process exits non-zero. The code at exit code 1 and \<open>ERROR: Unsupported URL\<close>: the answer
  is 500, and its detail is \<open>str\<close> of the 400 exception.
\<close>

theorem info_unsupported_url_is_500:
  "returncode unsupported_url \<noteq> 0
   \<and> snd (get_video_info (scenario unsupported_url (Inl JSONDecodeError))
             (clip_request (Some (U ''best''))))
     = Inl (HTTPException 500
              (StrOf (HTTPException 400 (Text (U ''yt-dlp error: ERROR: Unsupported URL'')))))"
  by (simp add: get_video_info_def get_video_info_try_def scenario_simps unsupported_url_def
        yt_dlp_error_def bytes_decode_def utf8_next_def str_strip_def is_space_def
        ascii_space_def ascii_db_def)

section \<open>Errors of /download/format\<close>

text \<open>Every error that \<open>/download/format\<close> answers is a 500 built from a caught exception.\<close>

lemma download_format_status:
  "snd (download_format rt request format_id) = Inl e \<Longrightarrow> \<exists>x. e = HTTPException 500 (StrOf (Lib x))"
  by (auto simp: download_format_def internal_error_def Let_def split: sum.splits)

text \<open>
  Claim C9 says that \<open>/download/format\<close> answers 400 with the tool's diagnostic when the
  metadata process fails. The code at exit code 1, empty output and
  \<open>ERROR: Unsupported URL\<close>: the exit code is not read, parsing the empty output fails, and
  the answer is 500 with \<open>str\<close> of the parser's exception.
\<close>

theorem download_format_unsupported_url_is_500:
  "returncode unsupported_url \<noteq> 0
   \<and> download_format (scenario unsupported_url (Inl JSONDecodeError))
        (clip_request (Some (U ''best''))) (U ''22'')
     = ([[U ''yt-dlp'', U ''https://example.com/v/abc'', U ''--dump-json'',
          U ''--no-playlist'', U ''--no-warnings'']],
        Inl (HTTPException 500 (StrOf (Lib JSONDecodeError))))"
  by (simp add: download_format_def download_format_cmd_info_def scenario_simps
        clip_request_simps unsupported_url_def internal_error_def Let_def)

section \<open>Errors of /download\<close>

text \<open>
  Claim C5 as stated fails where the error stream is not UTF-8: the single byte \<open>0xFF\<close> makes
  \<open>decode\<close> raise, and the handler answers 500.
\<close>

theorem download_undecodable_stderr_counterexample:
  "returncode undecodable \<noteq> 0
   \<and> snd (download_video (scenario undecodable (Inl JSONDecodeError))
             (clip_request (Some (U ''best''))))
     = Inl (HTTPException 500 (StrOf (Lib UnicodeDecodeError)))"
  by (simp add: download_video_def download_video_try_def scenario_simps undecodable_def
        yt_dlp_error_def bytes_decode_def utf8_next_def)

text \<open>
  Claim C5, amended. When the metadata process of \<open>/download\<close> exits with a non-zero code,
  serving the request spawns that process only, whatever the stream would hold and however
  the client would read it; the handler answers 400 with \<open>yt-dlp error: \<close> and the stripped
  error text when the error stream is UTF-8, and 500 when it is not.
\<close>

theorem download_nonzero_exit:
  assumes "create_subprocess_exec rt (download_video_cmd_info (videoUrl request)) = Inr p"
    and "returncode p \<noteq> 0"
  shows "fst (serve rt (download_video rt request) reads c)
           = [Exec (download_video_cmd_info (videoUrl request))]
         \<and> snd (download_video rt request)
           = (case bytes_decode (stderr p) of
                Some msg \<Rightarrow>
                  Inl (HTTPException 400 (Text (U ''yt-dlp error: '' @ str_strip (udb rt) msg)))
              | None \<Rightarrow> Inl (HTTPException 500 (StrOf (Lib UnicodeDecodeError))))"
  using assms
  by (simp add: serve_def download_video_def download_video_try_def yt_dlp_error_def
      split: option.splits)

theorem download_nonzero_exit_witness:
  "create_subprocess_exec (scenario unsupported_url (Inl JSONDecodeError))
      (download_video_cmd_info (videoUrl (clip_request (Some (U ''best''))))) = Inr unsupported_url
   \<and> returncode unsupported_url \<noteq> 0
   \<and> fst (serve (scenario unsupported_url (Inl JSONDecodeError))
            (download_video (scenario unsupported_url (Inl JSONDecodeError))
               (clip_request (Some (U ''best''))))
            [''chunk''] UntilEnd)
       = [Exec (download_video_cmd_info (videoUrl (clip_request (Some (U ''best'')))))]
   \<and> snd (download_video (scenario unsupported_url (Inl JSONDecodeError))
            (clip_request (Some (U ''best''))))
       = Inl (HTTPException 400 (Text (U ''yt-dlp error: ERROR: Unsupported URL'')))"
proof -
  have spawn: "create_subprocess_exec (scenario unsupported_url (Inl JSONDecodeError))
      (download_video_cmd_info (videoUrl (clip_request (Some (U ''best''))))) = Inr unsupported_url"
    by (simp add: scenario_simps)
  have code: "returncode unsupported_url \<noteq> 0"
    by (simp add: unsupported_url_def)
  have decode: "bytes_decode (stderr unsupported_url) = Some (U ''ERROR: Unsupported URL'')"
    by (simp add: unsupported_url_def bytes_decode_def utf8_next_def)
  have strip: "str_strip ascii_db (U ''ERROR: Unsupported URL'') = U ''ERROR: Unsupported URL''"
    by (simp add: str_strip_def is_space_def ascii_space_def ascii_db_def)
  show ?thesis
    using download_nonzero_exit [OF spawn code, of "[''chunk'']" UntilEnd] spawn code
    by (simp only: decode option.case scenario_simps strip append.simps map_append [symmetric])
       simp
qed

section \<open>The list of /formats\<close>

lemma collect_formats_objects:
  "collect_formats (map JObj entries) acc
     = Inr (acc @ map format_entry
              (filter (\<lambda>f. dict_get f (U ''vcodec'') JNull \<noteq> JStr (U ''none'')
                          \<or> dict_get f (U ''acodec'') JNull \<noteq> JStr (U ''none'')) entries))"
  by (induction entries arbitrary: acc) simp_all

text \<open>
  Claim C8. For every metadata document (a dict whose \<open>formats\<close>, when present, is a list
  of dicts), the response of \<open>/formats\<close> lists exactly the entries whose \<open>vcodec\<close> is not
  \<open>"none"\<close> or whose \<open>acodec\<close> is not \<open>"none"\<close>, in order, each with the nine fields; \<open>quality\<close>
  is \<open>format_note\<close> if that is true in Python's sense, else \<open>quality\<close> if true, else
  \<open>"Unknown"\<close>, and \<open>filesize\<close> is \<open>filesize\<close> if true, else \<open>filesize_approx\<close>.
\<close>

theorem get_formats_filtered:
  assumes "create_subprocess_exec rt (get_formats_cmd (videoUrl request)) = Inr p"
    and "json_loads rt (stdout p) = Inr (JObj info)"
    and "dict_get info (U ''formats'') (JArr []) = JArr (map JObj entries)"
  shows "snd (get_formats rt request)
     = Inr (JObj
        [(U ''title'', dict_get info (U ''title'') JNull),
         (U ''formats'',
          JArr (map (\<lambda>f. JObj
                  [(U ''format_id'', dict_get f (U ''format_id'') JNull),
                   (U ''ext'', dict_get f (U ''ext'') JNull),
                   (U ''quality'',
                      if truthy (dict_get f (U ''format_note'') JNull)
                      then dict_get f (U ''format_note'') JNull
                      else if truthy (dict_get f (U ''quality'') JNull)
                      then dict_get f (U ''quality'') JNull
                      else JStr (U ''Unknown'')),
                   (U ''filesize'',
                      if truthy (dict_get f (U ''filesize'') JNull)
                      then dict_get f (U ''filesize'') JNull
                      else dict_get f (U ''filesize_approx'') JNull),
                   (U ''vcodec'', dict_get f (U ''vcodec'') JNull),
                   (U ''acodec'', dict_get f (U ''acodec'') JNull),
                   (U ''height'', dict_get f (U ''height'') JNull),
                   (U ''width'', dict_get f (U ''width'') JNull),
                   (U ''fps'', dict_get f (U ''fps'') JNull)])
                (filter (\<lambda>f. dict_get f (U ''vcodec'') JNull \<noteq> JStr (U ''none'')
                            \<or> dict_get f (U ''acodec'') JNull \<noteq> JStr (U ''none''))
                   entries))),
         (U ''format_count'',
          JInt (int (length
                (filter (\<lambda>f. dict_get f (U ''vcodec'') JNull \<noteq> JStr (U ''none'')
                            \<or> dict_get f (U ''acodec'') JNull \<noteq> JStr (U ''none''))
                   entries))))])"
proof -
  have entry: "format_entry = (\<lambda>f. JObj
                  [(U ''format_id'', dict_get f (U ''format_id'') JNull),
                   (U ''ext'', dict_get f (U ''ext'') JNull),
                   (U ''quality'',
                      if truthy (dict_get f (U ''format_note'') JNull)
                      then dict_get f (U ''format_note'') JNull
                      else if truthy (dict_get f (U ''quality'') JNull)
                      then dict_get f (U ''quality'') JNull
                      else JStr (U ''Unknown'')),
                   (U ''filesize'',
                      if truthy (dict_get f (U ''filesize'') JNull)
                      then dict_get f (U ''filesize'') JNull
                      else dict_get f (U ''filesize_approx'') JNull),
                   (U ''vcodec'', dict_get f (U ''vcodec'') JNull),
                   (U ''acodec'', dict_get f (U ''acodec'') JNull),
                   (U ''height'', dict_get f (U ''height'') JNull),
                   (U ''width'', dict_get f (U ''width'') JNull),
                   (U ''fps'', dict_get f (U ''fps'') JNull)])"
    by (rule ext) (simp add: format_entry_def py_or_def)
  have "snd (get_formats rt request)
     = Inr (JObj
        [(U ''title'', dict_get info (U ''title'') JNull),
         (U ''formats'',
          JArr (map format_entry
                (filter (\<lambda>f. dict_get f (U ''vcodec'') JNull \<noteq> JStr (U ''none'')
                            \<or> dict_get f (U ''acodec'') JNull \<noteq> JStr (U ''none''))
                   entries))),
         (U ''format_count'',
          JInt (int (length
                (filter (\<lambda>f. dict_get f (U ''vcodec'') JNull \<noteq> JStr (U ''none'')
                            \<or> dict_get f (U ''acodec'') JNull \<noteq> JStr (U ''none''))
                   entries))))])"
    using assms by (simp add: get_formats_def Let_def collect_formats_objects)
  then show ?thesis unfolding entry .
qed

theorem get_formats_filtered_witness:
  "create_subprocess_exec (scenario clip_process (Inr (JObj three_formats)))
       (get_formats_cmd (videoUrl (clip_request None))) = Inr clip_process
   \<and> json_loads (scenario clip_process (Inr (JObj three_formats))) (stdout clip_process)
       = Inr (JObj three_formats)
   \<and> dict_get three_formats (U ''formats'') (JArr []) = JArr (map JObj three_entries)
   \<and> snd (get_formats (scenario clip_process (Inr (JObj three_formats))) (clip_request None))
     = Inr (JObj
        [(U ''title'', JStr (U ''My Clip!'')),
         (U ''formats'',
          JArr [JObj [(U ''format_id'', JStr (U ''140'')), (U ''ext'', JStr (U ''m4a'')),
                      (U ''quality'', JStr (U ''Unknown'')), (U ''filesize'', JNull),
                      (U ''vcodec'', JStr (U ''none'')), (U ''acodec'', JStr (U ''mp4a'')),
                      (U ''height'', JNull), (U ''width'', JNull), (U ''fps'', JNull)],
                JObj [(U ''format_id'', JStr (U ''22'')), (U ''ext'', JStr (U ''mp4'')),
                      (U ''quality'', JStr (U ''720p'')), (U ''filesize'', JInt 1000),
                      (U ''vcodec'', JStr (U ''avc1'')), (U ''acodec'', JStr (U ''mp4a'')),
                      (U ''height'', JInt 720), (U ''width'', JInt 1280),
                      (U ''fps'', JInt 30)]]),
         (U ''format_count'', JInt 2)])"
proof -
  have spawn: "create_subprocess_exec (scenario clip_process (Inr (JObj three_formats)))
       (get_formats_cmd (videoUrl (clip_request None))) = Inr clip_process"
    by (simp add: scenario_simps)
  have parse: "json_loads (scenario clip_process (Inr (JObj three_formats))) (stdout clip_process)
       = Inr (JObj three_formats)"
    by (simp add: scenario_simps)
  have formats: "dict_get three_formats (U ''formats'') (JArr []) = JArr (map JObj three_entries)"
    by (simp add: dict_get_def three_formats_def)
  show ?thesis
    using get_formats_filtered [OF spawn parse formats] spawn parse formats
    by (simp add: three_entries_def three_formats_def dict_get_def)
qed

section \<open>Reaping the streaming subprocess\<close>

lemma loop_until_end:
  "stream_yt_dlp_loop reads UntilEnd
     = concat (map (\<lambda>x. [Read 8192, Yield x]) (takeWhile (\<lambda>x. x \<noteq> []) reads)) @ [Read 8192, Wait]"
  by (induction reads) simp_all

lemma loop_pulls:
  "0 < n \<Longrightarrow> n \<le> length (takeWhile (\<lambda>x. x \<noteq> []) reads) \<Longrightarrow>
   stream_yt_dlp_loop reads (Pulls n) = concat (map (\<lambda>x. [Read 8192, Yield x]) (take n reads))"
proof (induction reads arbitrary: n)
  case Nil
  then show ?case by simp
next
  case (Cons x xs)
  show ?case
  proof (cases "x = []")
    case True
    with Cons.prems show ?thesis by simp
  next
    case False
    show ?thesis
    proof (cases "n \<le> 1")
      case True
      with Cons.prems have "n = 1" by simp
      with False show ?thesis by simp
    next
      case big: False
      then obtain m where n: "n = Suc m" and m: "0 < m" by (cases n) auto
      from Cons.prems False n have "m \<le> length (takeWhile (\<lambda>x. x \<noteq> []) xs)" by simp
      from Cons.IH [OF m this] False big n show ?thesis by simp
    qed
  qed
qed

lemma loop_never_terminates:
  "Terminate \<notin> set (stream_yt_dlp_loop reads c) \<and> Kill \<notin> set (stream_yt_dlp_loop reads c)"
  by (induction reads c rule: stream_yt_dlp_loop.induct) (auto split: consumer.splits)

text \<open>
  Claim C2 as stated fails: ten chunks are ready and the client leaves after two. The relay
  has spawned the process and read twice; it neither terminates nor awaits the process.
\<close>

theorem disconnect_after_two_chunks_counterexample:
  "fst (serve (scenario clip_process (Inr clip_metadata))
          (download_video (scenario clip_process (Inr clip_metadata))
             (clip_request (Some (U ''720p''))))
          ten_chunks (Pulls 2))
     = [Exec (download_video_cmd_info (U ''https://example.com/v/abc'')),
        Exec (stream_yt_dlp_cmd (U ''https://example.com/v/abc'')
               (U ''best[height<=720][ext=mp4]/best[height<=720]'')),
        Read 8192, Yield ''0'', Read 8192, Yield ''1'']
   \<and> Terminate \<notin> set (fst (serve (scenario clip_process (Inr clip_metadata))
          (download_video (scenario clip_process (Inr clip_metadata))
             (clip_request (Some (U ''720p''))))
          ten_chunks (Pulls 2)))
   \<and> Kill \<notin> set (fst (serve (scenario clip_process (Inr clip_metadata))
          (download_video (scenario clip_process (Inr clip_metadata))
             (clip_request (Some (U ''720p''))))
          ten_chunks (Pulls 2)))
   \<and> Wait \<notin> set (fst (serve (scenario clip_process (Inr clip_metadata))
          (download_video (scenario clip_process (Inr clip_metadata))
             (clip_request (Some (U ''720p''))))
          ten_chunks (Pulls 2)))"
  by (simp add: serve_def download_video_def download_video_try_def scenario_simps
        clip_process_def clip_request_simps stream_yt_dlp_def Let_def ten_chunks_def
        format_spec_def normalize_quality_def format_map_def
        filename_title_def clip_metadata_def dict_get_def ascii_db_def
        sanitize_filename_def sub_invalid_def is_word_def is_space_def
        ascii_alnum_def ascii_space_def)

text \<open>
  Claim C2, amended. The relay never terminates the streaming subprocess. When the client
  reads the stream to its end, the relay awaits the process once, as its last action; when
  the client leaves after \<open>n\<close> chunks, before the end, the relay stops after yielding the
  \<open>n\<close>-th chunk and never awaits the process.
\<close>

theorem stream_yt_dlp_reaping:
  assumes "create_subprocess_exec rt (stream_yt_dlp_cmd url q) = Inr p"
  shows "Terminate \<notin> set (stream_yt_dlp rt url q reads c)
       \<and> Kill \<notin> set (stream_yt_dlp rt url q reads c)
       \<and> stream_yt_dlp rt url q reads UntilEnd
           = Exec (stream_yt_dlp_cmd url q)
             # concat (map (\<lambda>x. [Read 8192, Yield x]) (takeWhile (\<lambda>x. x \<noteq> []) reads))
             @ [Read 8192, Wait]
       \<and> (0 < n \<and> n \<le> length (takeWhile (\<lambda>x. x \<noteq> []) reads) \<longrightarrow>
            stream_yt_dlp rt url q reads (Pulls n)
              = Exec (stream_yt_dlp_cmd url q)
                # concat (map (\<lambda>x. [Read 8192, Yield x]) (take n reads))
            \<and> Wait \<notin> set (stream_yt_dlp rt url q reads (Pulls n)))"
proof -
  have a: "Terminate \<notin> set (stream_yt_dlp rt url q reads c)
       \<and> Kill \<notin> set (stream_yt_dlp rt url q reads c)"
    using assms loop_never_terminates [of reads c] by (simp add: stream_yt_dlp_def Let_def)
  have b: "stream_yt_dlp rt url q reads UntilEnd
           = Exec (stream_yt_dlp_cmd url q)
             # concat (map (\<lambda>x. [Read 8192, Yield x]) (takeWhile (\<lambda>x. x \<noteq> []) reads))
             @ [Read 8192, Wait]"
    using assms by (simp add: stream_yt_dlp_def Let_def loop_until_end)
  have c: "stream_yt_dlp rt url q reads (Pulls n)
              = Exec (stream_yt_dlp_cmd url q)
                # concat (map (\<lambda>x. [Read 8192, Yield x]) (take n reads))
            \<and> Wait \<notin> set (stream_yt_dlp rt url q reads (Pulls n))"
    if "0 < n" "n \<le> length (takeWhile (\<lambda>x. x \<noteq> []) reads)"
    using assms that by (auto simp: stream_yt_dlp_def Let_def loop_pulls)
  from a b c show ?thesis by blast
qed

theorem stream_yt_dlp_reaping_witness:
  "create_subprocess_exec (scenario clip_process (Inr clip_metadata))
       (stream_yt_dlp_cmd (U ''https://example.com/v/abc'') (U ''best'')) = Inr clip_process
   \<and> (0::nat) < 2 \<and> 2 \<le> length (takeWhile (\<lambda>x. x \<noteq> []) ten_chunks)
   \<and> stream_yt_dlp (scenario clip_process (Inr clip_metadata))
        (U ''https://example.com/v/abc'') (U ''best'') ten_chunks (Pulls 2)
       = [Exec (stream_yt_dlp_cmd (U ''https://example.com/v/abc'') (U ''best'')),
          Read 8192, Yield ''0'', Read 8192, Yield ''1'']
   \<and> last (stream_yt_dlp (scenario clip_process (Inr clip_metadata))
        (U ''https://example.com/v/abc'') (U ''best'') [''0'', ''1''] UntilEnd) = Wait"
proof -
  have spawn: "create_subprocess_exec (scenario clip_process (Inr clip_metadata))
       (stream_yt_dlp_cmd (U ''https://example.com/v/abc'') (U ''best'')) = Inr clip_process"
    by (simp add: scenario_simps)
  have len: "(0::nat) < 2 \<and> 2 \<le> length (takeWhile (\<lambda>x. x \<noteq> []) ten_chunks)"
    by (simp add: ten_chunks_def)
  show ?thesis
    using stream_yt_dlp_reaping [OF spawn, of ten_chunks UntilEnd 2]
      stream_yt_dlp_reaping [OF spawn, of "[''0'', ''1'']" UntilEnd 2] spawn len
    by (simp add: ten_chunks_def)
qed

end
